theory Spec2Isabelle
  imports Main
begin

section \<open>Long-running plugin manager and plugin catalog of the SSM agent\<close>

text \<open>
  A shallow embedding of \<^verbatim>\<open>agent/longrunning/manager/coreplugin.go\<close>,
  \<^verbatim>\<open>agent/longrunning/manager/utils.go\<close> and \<^verbatim>\<open>agent/framework/plugin/plugin.go\<close>.

  The Go code is stateful and talks to collaborators that live outside these files (the data
  store, the scheduler, the task pools, the plugin handlers, the loggers). Every function is
  therefore modelled as a function from the state it reads, and from the values the
  collaborators hand back, to the state it leaves behind, the list of calls it made on the
  collaborators (in program order) and its result. A Go \<^verbatim>\<open>error\<close> result is
  \<open>goerror option\<close> (\<open>None\<close> is \<^verbatim>\<open>nil\<close>); a run-time panic is the \<open>Inl\<close> branch of a sum.
\<close>

subsection \<open>Values shared by both packages\<close>

datatype goerror = Error string

fun errorMessage :: "goerror \<Rightarrow> string" where
  "errorMessage (Error s) = s"

datatype panic = NilDereference

text \<open>\<^verbatim>\<open>time.Duration\<close> counts nanoseconds; \<^verbatim>\<open>time.Second\<close> and \<^verbatim>\<open>time.Millisecond\<close> are the
  constants of Go's standard library.\<close>

type_synonym Duration = int

definition Millisecond :: Duration where
  "Millisecond = 1000000"

definition Second :: Duration where
  "Second = 1000000000"

text \<open>References to objects owned by the collaborators. Two references are the same object
  exactly when they are equal.\<close>

datatype handler = HandlerRef nat
datatype pool = PoolRef nat
datatype schedjob = JobRef nat
datatype executer = ExecuterRef nat

text \<open>The work closure handed to \<^verbatim>\<open>Pool.Submit\<close> by the reconciliation: it calls
  \<^verbatim>\<open>Handler.Start\<close> with the configuration and the orchestration directory shown.\<close>

datatype job = StartJob handler string string

text \<open>The calls a function makes on its collaborators. A log call keeps its format string and
  its arguments; \<open>PoolShutdownAndWait\<close> keeps the pool, the timeout passed in and the boolean
  the pool returned (whether it drained in time).\<close>

datatype event =
    Infof string "string list"
  | Errorf string "string list"
  | DataStoreRead
  | HandlerStart handler string string
  | HandlerIsRunning handler
  | PoolSubmit pool string job
  | SchedulerEveryMinutesRun nat
  | QuitSend schedjob
  | PoolShutdownAndWait pool Duration bool
  | NewPlugin string

subsection \<open>Package manager: data\<close>

text \<open>Modelled from the spec: the declarations of \<^verbatim>\<open>PluginInfo\<close>, \<^verbatim>\<open>Plugin\<close> and
  \<^verbatim>\<open>StopType\<close> are in packages outside these files. The spec gives \<^verbatim>\<open>PluginInfo\<close> a name, an
  opaque serialized configuration and a state snapshot; a registered plugin pairs such an info
  with a handler, which is a value of an interface type (the capability contract) and so may
  be \<^verbatim>\<open>nil\<close>; a stop type is one of soft stop and hard stop. The field names are the ones
  the source uses.\<close>

type_synonym PluginState = string

record PluginInfo =
  Name :: string
  Configuration :: string
  State :: PluginState

record Plugin =
  Info :: PluginInfo
  Handler :: "handler option"

datatype StopType = StopTypeSoftStop | StopTypeHardStop

text \<open>The zero value of \<^verbatim>\<open>Plugin\<close>, which indexing a Go map yields for a missing key.\<close>

definition zeroPluginInfo :: PluginInfo where
  "zeroPluginInfo = \<lparr>Name = '''', Configuration = '''', State = ''''\<rparr>"

definition zeroPlugin :: Plugin where
  "zeroPlugin = \<lparr>Info = zeroPluginInfo, Handler = None\<rparr>"

text \<open>The map \<^verbatim>\<open>runningPlugins\<close> is ranged over, so it is the list of its entries in the
  order the iteration visits them (Go leaves that order open; the theorems hold for every
  order), or \<open>None\<close> for the \<^verbatim>\<open>nil\<close> map. The map \<^verbatim>\<open>registeredPlugins\<close> is only indexed.\<close>

type_synonym 'v gomap = "(string \<times> 'v) list option"

definition len :: "'v gomap \<Rightarrow> nat" where
  "len m = (case m of None \<Rightarrow> 0 | Some kvs \<Rightarrow> length kvs)"

definition rangeKeys :: "'v gomap \<Rightarrow> string list" where
  "rangeKeys m = (case m of None \<Rightarrow> [] | Some kvs \<Rightarrow> map fst kvs)"

definition index :: "(string \<rightharpoonup> Plugin) \<Rightarrow> string \<Rightarrow> Plugin" where
  "index m k = (case m k of None \<Rightarrow> zeroPlugin | Some p \<Rightarrow> p)"

record Manager =
  startPlugin :: pool
  stopPlugin :: pool
  runningPlugins :: "PluginInfo gomap"
  registeredPlugins :: "string \<rightharpoonup> Plugin"
  managingLifeCycleJob :: "schedjob option"

subsection \<open>Package manager: constants\<close>

definition ManagerName :: string where
  "ManagerName = ''LongRunningPluginsManager''"

definition NumberOfLongRunningPluginWorkers :: nat where
  "NumberOfLongRunningPluginWorkers = 5"

definition NumberOfCancelWorkers :: nat where
  "NumberOfCancelWorkers = 5"

definition PollFrequencyMinutes :: nat where
  "PollFrequencyMinutes = 15"

definition HardStopTimeout :: Duration where
  "HardStopTimeout = 4 * Second"

definition SoftStopTimeout :: Duration where
  "SoftStopTimeout = 20 * Second"

definition PluginNameAwsCloudwatch :: string where
  "PluginNameAwsCloudwatch = ''aws:cloudWatch''"

subsection \<open>Package manager: \<^verbatim>\<open>utils.go\<close>\<close>

text \<open>\<^verbatim>\<open>RegisteredPlugins\<close>: the argument is what \<^verbatim>\<open>cloudwatch.NewPlugin\<close> returned.\<close>

definition RegisteredPlugins :: "handler option \<times> goerror option \<Rightarrow> (string \<rightharpoonup> Plugin)" where
  "RegisteredPlugins cloudwatchNewPlugin =
     (let cwInfo = \<lparr>Name = PluginNameAwsCloudwatch, Configuration = '''', State = ''''\<rparr>
      in case snd cloudwatchNewPlugin of
           None \<Rightarrow> Map.empty(PluginNameAwsCloudwatch \<mapsto>
                     \<lparr>Info = cwInfo, Handler = fst cloudwatchNewPlugin\<rparr>)
         | Some err \<Rightarrow> Map.empty)"

text \<open>The loop of \<^verbatim>\<open>ensurePluginsAreRunning\<close> over the names of the running set.
  \<open>isRunning\<close> is what \<^verbatim>\<open>IsRunning\<close> of a handler answers when it is asked. A registered
  plugin whose handler is \<^verbatim>\<open>nil\<close> makes the method call panic.\<close>

fun ensureLoop :: "(handler \<Rightarrow> bool) \<Rightarrow> Manager \<Rightarrow> string list \<Rightarrow> event list \<times> (panic + unit)" where
  "ensureLoop isRunning m [] = ([], Inr ())"
| "ensureLoop isRunning m (n # ns) =
     (case registeredPlugins m n of
        None \<Rightarrow> ensureLoop isRunning m ns
      | Some p \<Rightarrow>
          (case Handler p of
             None \<Rightarrow> ([], Inl NilDereference)
           | Some h \<Rightarrow>
               (if \<not> isRunning h
                then (let (evs, r) = ensureLoop isRunning m ns
                      in ([HandlerIsRunning h,
                           Infof ''Starting %s since it wasn't running before'' [],
                           PoolSubmit (startPlugin m) n (StartJob h (Configuration (Info p)) '''')]
                          @ evs, r))
                else (let (evs, r) = ensureLoop isRunning m ns
                      in (HandlerIsRunning h # evs, r)))))"

definition ensurePluginsAreRunning :: "(handler \<Rightarrow> bool) \<Rightarrow> Manager \<Rightarrow> event list \<times> (panic + unit)" where
  "ensurePluginsAreRunning isRunning m =
     (if len (runningPlugins m) > 0
      then ensureLoop isRunning m (rangeKeys (runningPlugins m))
      else ([Infof ''There are no long running plugins currently getting executed - skipping their healthcheck'' []],
            Inr ()))"

definition stopLifeCycleManagementJob :: "Manager \<Rightarrow> event list" where
  "stopLifeCycleManagementJob m =
     (case managingLifeCycleJob m of None \<Rightarrow> [] | Some j \<Rightarrow> [QuitSend j])"

subsection \<open>Package manager: \<^verbatim>\<open>coreplugin.go\<close>\<close>

text \<open>The singleton and its \<^verbatim>\<open>sync.Once\<close>.\<close>

record Process =
  onceDone :: bool
  singletonInstance :: "Manager option"

text \<open>\<^verbatim>\<open>EnsureInitialization\<close>: the arguments are what \<^verbatim>\<open>cloudwatch.NewPlugin\<close> returned and the
  two pools \<^verbatim>\<open>task.NewPool\<close> returned.\<close>

definition EnsureInitialization ::
    "handler option \<times> goerror option \<Rightarrow> pool \<Rightarrow> pool \<Rightarrow> Process \<Rightarrow> Process" where
  "EnsureInitialization cloudwatchNewPlugin startPluginPool stopPluginPool pr =
     (if onceDone pr then pr
      else (let plugins = Some [];
                regPlugins = RegisteredPlugins cloudwatchNewPlugin
            in \<lparr>onceDone = True,
                singletonInstance = Some
                  \<lparr>startPlugin = startPluginPool,
                   stopPlugin = stopPluginPool,
                   runningPlugins = plugins,
                   registeredPlugins = regPlugins,
                   managingLifeCycleJob = None\<rparr>\<rparr>))"

definition GetInstance :: "Process \<Rightarrow> Manager option \<times> goerror option" where
  "GetInstance pr =
     (case singletonInstance pr of
        None \<Rightarrow> (None, Some (Error ''lrpm isn't initialized yet''))
      | Some m \<Rightarrow> (Some m, None))"

text \<open>The revival loop of \<^verbatim>\<open>Execute\<close> over the names of the running set. The registered
  plugin is read by plain indexing, so a name that is not registered yields the zero
  \<^verbatim>\<open>Plugin\<close>, whose handler is \<^verbatim>\<open>nil\<close>; \<^verbatim>\<open>p.Handler.Start\<close> then panics.\<close>

fun reviveLoop :: "Manager \<Rightarrow> string list \<Rightarrow> event list \<times> (panic + unit)" where
  "reviveLoop m [] = ([], Inr ())"
| "reviveLoop m (pluginName # rest) =
     (let p = index (registeredPlugins m) pluginName;
          logged = Infof ''Detected %s as a previously executing long running plugin. Starting that plugin again''
                     [Name (Info p)]
      in case Handler p of
           None \<Rightarrow> ([logged], Inl NilDereference)
         | Some h \<Rightarrow>
             (let (evs, r) = reviveLoop m rest
              in ([logged, HandlerStart h (Configuration (Info p)) ''''] @ evs, r)))"

text \<open>\<^verbatim>\<open>Execute\<close>: \<open>readResult\<close> is what \<^verbatim>\<open>dataStore.Read\<close> returned, \<open>runResult\<close> what
  \<^verbatim>\<open>scheduler.Every(PollFrequencyMinutes).Minutes().Run\<close> returned. The result \<open>err\<close> is a
  named result, so the bare \<^verbatim>\<open>return\<close> at the end returns what was last assigned to it.\<close>

definition Execute ::
    "PluginInfo gomap \<times> goerror option \<Rightarrow> schedjob option \<times> goerror option \<Rightarrow> Manager
      \<Rightarrow> Manager \<times> event list \<times> (panic + goerror option)" where
  "Execute readResult runResult m =
     (let ev0 = [Infof ''starting long running plugin manager'' [], DataStoreRead];
          m1 = m\<lparr>runningPlugins := fst readResult\<rparr>;
          err = snd readResult
      in if err \<noteq> None
         then (m1, ev0 @ [Errorf ''%s is exiting - unable to read from data store'' [ManagerName]],
               Inr err)
         else
           (let (ev1, r) =
                  (if len (runningPlugins m1) > 0
                   then reviveLoop m1 (rangeKeys (runningPlugins m1))
                   else ([Infof ''there aren't any long running plugin to execute'' []], Inr ()))
            in case r of
                 Inl pn \<Rightarrow> (m1, ev0 @ ev1, Inl pn)
               | Inr u \<Rightarrow>
                   (let m2 = m1\<lparr>managingLifeCycleJob := fst runResult\<rparr>;
                        err2 = snd runResult;
                        ev2 = [SchedulerEveryMinutesRun PollFrequencyMinutes]
                      in case err2 of
                           Some e \<Rightarrow>
                             (m2, ev0 @ ev1 @ ev2 @
                                  [Errorf ''unable to schedule long running plugins manager. %v''
                                     [errorMessage e]],
                              Inr err2)
                         | None \<Rightarrow> (m2, ev0 @ ev1 @ ev2, Inr err2))))"

text \<open>\<^verbatim>\<open>RequestStop\<close>: the two pool shutdowns run in two goroutines, each a single call, and
  \<^verbatim>\<open>wg.Wait\<close> joins them; \<open>startFirst\<close> says which of the two calls the scheduler of the Go
  runtime lets happen first. \<open>startFinished\<close> and \<open>stopFinished\<close> are what the two
  \<^verbatim>\<open>ShutdownAndWait\<close> calls returned; the code drops them.\<close>

definition RequestStop ::
    "StopType \<Rightarrow> bool \<Rightarrow> bool \<Rightarrow> bool \<Rightarrow> Manager \<Rightarrow> Manager \<times> event list \<times> (panic + goerror option)" where
  "RequestStop stopType startFirst startFinished stopFinished m =
     (let waitTimeout = (if stopType = StopTypeSoftStop then SoftStopTimeout else HardStopTimeout);
          ev1 = stopLifeCycleManagementJob m;
          a = PoolShutdownAndWait (startPlugin m) waitTimeout startFinished;
          b = PoolShutdownAndWait (stopPlugin m) waitTimeout stopFinished
      in (m, ev1 @ (if startFirst then [a, b] else [b, a]), Inr None))"

subsection \<open>Package plugin: \<^verbatim>\<open>plugin.go\<close>\<close>

type_synonym PluginRegistry = "string \<rightharpoonup> executer"

text \<open>The two package-level pointers.\<close>

record Catalog =
  registeredExecuters :: "PluginRegistry option"
  registeredLongRunningPlugins :: "PluginRegistry option"

text \<open>What the constructors and name functions of the plugin packages return during one load.
  \<^verbatim>\<open>loadPlatformDependentPlugins\<close> is in a platform file outside these files; its result is
  taken as it comes.\<close>

record LoadEnv =
  lrpminvokerNewPlugin :: "executer \<times> goerror option"
  runcommandName :: string
  runcommandNewPlugin :: "executer \<times> goerror option"
  updatessmagentName :: string
  updatessmagentNewPlugin :: "executer \<times> goerror option"
  platformDependentPlugins :: PluginRegistry

definition isLoaded :: "Catalog \<Rightarrow> bool" where
  "isLoaded c = (registeredExecuters c \<noteq> None)"

definition cache :: "PluginRegistry \<Rightarrow> PluginRegistry \<Rightarrow> Catalog \<Rightarrow> Catalog" where
  "cache workerPlugins longRunningPlugins c =
     c\<lparr>registeredExecuters := Some workerPlugins,
       registeredLongRunningPlugins := Some longRunningPlugins\<rparr>"

definition getCachedWorkerPlugins :: "Catalog \<Rightarrow> panic + PluginRegistry" where
  "getCachedWorkerPlugins c =
     (case registeredExecuters c of None \<Rightarrow> Inl NilDereference | Some r \<Rightarrow> Inr r)"

definition getCachedLongRunningPlugins :: "Catalog \<Rightarrow> panic + PluginRegistry" where
  "getCachedLongRunningPlugins c =
     (case registeredLongRunningPlugins c of None \<Rightarrow> Inl NilDereference | Some r \<Rightarrow> Inr r)"

definition loadLongRunningPlugins :: "LoadEnv \<Rightarrow> PluginRegistry \<times> event list" where
  "loadLongRunningPlugins env =
     (let (handler, err) = lrpminvokerNewPlugin env
      in case err of
           Some e \<Rightarrow>
             (Map.empty,
              [NewPlugin ''lrpminvoker'',
               Errorf ''Failed to load lrpminvoker that will handle all long running plugins - %v''
                 [errorMessage e]])
         | None \<Rightarrow> (Map.empty(''aws:cloudWatch'' \<mapsto> handler), [NewPlugin ''lrpminvoker'']))"

definition loadPlatformIndependentPlugins :: "LoadEnv \<Rightarrow> PluginRegistry \<times> event list" where
  "loadPlatformIndependentPlugins env =
     (let workerPlugins = Map.empty;
          runcommandPluginName = runcommandName env;
          (runcommandPlugin, err) = runcommandNewPlugin env;
          (workerPlugins, ev1) =
             (case err of
                Some e \<Rightarrow> (workerPlugins,
                           [NewPlugin ''runcommand'',
                            Errorf ''failed to create plugin %s %v'' [runcommandPluginName, errorMessage e]])
              | None \<Rightarrow> (workerPlugins(runcommandPluginName \<mapsto> runcommandPlugin),
                         [NewPlugin ''runcommand'']));
          updateAgentPluginName = updatessmagentName env;
          (updateAgentPlugin, err) = updatessmagentNewPlugin env;
          (workerPlugins, ev2) =
             (case err of
                Some e \<Rightarrow> (workerPlugins,
                           [NewPlugin ''updatessmagent'',
                            Errorf ''failed to create plugin %s %v'' [updateAgentPluginName, errorMessage e]])
              | None \<Rightarrow> (workerPlugins(updateAgentPluginName \<mapsto> updateAgentPlugin),
                         [NewPlugin ''updatessmagent'']))
      in (workerPlugins, ev1 @ ev2))"

text \<open>\<^verbatim>\<open>loadWorkerPlugins\<close> copies the entries of the two registries into a fresh one, the
  platform-dependent ones last: this is \<open>++\<close> on maps.\<close>

definition loadWorkerPlugins :: "LoadEnv \<Rightarrow> PluginRegistry \<times> event list" where
  "loadWorkerPlugins env =
     (let (independent, evs) = loadPlatformIndependentPlugins env
      in (Map.empty ++ independent ++ platformDependentPlugins env, evs))"

text \<open>The arguments of \<^verbatim>\<open>cache\<close> are evaluated left to right: the worker plugins are loaded
  before the long-running ones.\<close>

definition loadAndCache :: "LoadEnv \<Rightarrow> Catalog \<Rightarrow> Catalog \<times> event list" where
  "loadAndCache env c =
     (if \<not> isLoaded c
      then (let (w, ev1) = loadWorkerPlugins env;
                (l, ev2) = loadLongRunningPlugins env
            in (cache w l c, ev1 @ ev2))
      else (c, []))"

definition RegisteredWorkerPlugins ::
    "LoadEnv \<Rightarrow> Catalog \<Rightarrow> Catalog \<times> event list \<times> (panic + PluginRegistry)" where
  "RegisteredWorkerPlugins env c =
     (let (c', evs) = loadAndCache env c in (c', evs, getCachedWorkerPlugins c'))"

definition RegisteredLongRunningPlugins ::
    "LoadEnv \<Rightarrow> Catalog \<Rightarrow> Catalog \<times> event list \<times> (panic + PluginRegistry)" where
  "RegisteredLongRunningPlugins env c =
     (let (c', evs) = loadAndCache env c in (c', evs, getCachedLongRunningPlugins c'))"

subsection \<open>The package-level variables when the process starts\<close>

text \<open>\<^verbatim>\<open>var singletonInstance *Manager\<close> with \<^verbatim>\<open>var once sync.Once\<close>, and
  \<^verbatim>\<open>var registeredExecuters, registeredLongRunningPlugins *PluginRegistry\<close>, hold their zero
  values.\<close>

definition initialProcess :: Process where
  "initialProcess = \<lparr>onceDone = False, singletonInstance = None\<rparr>"

definition initialCatalog :: Catalog where
  "initialCatalog = \<lparr>registeredExecuters = None, registeredLongRunningPlugins = None\<rparr>"

subsection \<open>Reading a list of calls\<close>

text \<open>The submissions to a task pool, the direct calls of \<^verbatim>\<open>Handler.Start\<close> and the
  constructor calls among the calls a function made.\<close>

fun isSubmit :: "event \<Rightarrow> bool" where
  "isSubmit (PoolSubmit pl jobId jb) = True"
| "isSubmit e = False"


fun isNewPlugin :: "event \<Rightarrow> bool" where
  "isNewPlugin (NewPlugin pkg) = True"
| "isNewPlugin e = False"

section \<open>Theorems\<close>

subsection \<open>The two loops over the running set\<close>

lemma ensureLoop_returns:
  assumes reg: "\<And>n p. registeredPlugins m n = Some p \<Longrightarrow> Handler p \<noteq> None"
  shows "snd (ensureLoop isRunning m ns) = Inr ()"
proof (induction ns)
  case Nil
  show ?case by simp
next
  case (Cons n ns)
  show ?case
  proof (cases "registeredPlugins m n")
    case None
    with Cons show ?thesis by simp
  next
    case (Some p)
    with reg obtain h where h: "Handler p = Some h" by fastforce
    with Some Cons show ?thesis by (simp add: case_prod_beta)
  qed
qed

lemma ensureLoop_submits:
  assumes reg: "\<And>n p. registeredPlugins m n = Some p \<Longrightarrow> Handler p \<noteq> None"
  shows "PoolSubmit pl k jb \<in> set (fst (ensureLoop isRunning m ns)) \<longleftrightarrow>
     pl = startPlugin m \<and> k \<in> set ns \<and>
     (\<exists>p h. registeredPlugins m k = Some p \<and> Handler p = Some h \<and> \<not> isRunning h
            \<and> jb = StartJob h (Configuration (Info p)) '''')"
proof (induction ns)
  case Nil
  show ?case by simp
next
  case (Cons n ns)
  show ?case
  proof (cases "registeredPlugins m n")
    case None
    with Cons show ?thesis by auto
  next
    case (Some p)
    with reg obtain h where h: "Handler p = Some h" by fastforce
    with Some Cons show ?thesis by (auto simp add: case_prod_beta)
  qed
qed

lemma ensureLoop_distinct:
  assumes reg: "\<And>n p. registeredPlugins m n = Some p \<Longrightarrow> Handler p \<noteq> None"
  shows "distinct ns \<Longrightarrow> distinct (filter isSubmit (fst (ensureLoop isRunning m ns)))"
proof (induction ns)
  case Nil
  show ?case by simp
next
  case (Cons n ns)
  show ?case
  proof (cases "registeredPlugins m n")
    case None
    with Cons show ?thesis by auto
  next
    case (Some p)
    with reg obtain h where h: "Handler p = Some h" by fastforce
    have "\<And>jb. PoolSubmit (startPlugin m) n jb \<notin> set (fst (ensureLoop isRunning m ns))"
      using ensureLoop_submits[of m "startPlugin m" n _ isRunning ns, OF reg] Cons.prems by simp
    with h Some Cons show ?thesis by (auto simp add: case_prod_beta)
  qed
qed

lemma reviveLoop_no_submit:
  "filter isSubmit (fst (reviveLoop m ns)) = []"
  by (induction ns) (auto simp add: Let_def case_prod_beta split: option.splits)


subsection \<open>\<^verbatim>\<open>Execute\<close> path by path\<close>

lemma Execute_read_error:
  "snd readResult = Some e \<Longrightarrow>
   Execute readResult runResult m =
     (m\<lparr>runningPlugins := fst readResult\<rparr>,
      [Infof ''starting long running plugin manager'' [], DataStoreRead,
       Errorf ''%s is exiting - unable to read from data store'' [ManagerName]],
      Inr (Some e))"
  by (simp add: Execute_def Let_def)


subsection \<open>Graceful shutdown\<close>

text \<open>C5: \<^verbatim>\<open>RequestStop\<close> returns \<^verbatim>\<open>nil\<close> whatever the stop type, whatever the order in
  which the two pool shutdowns happen and whatever the two pools answered (drained in time or
  not): no shutdown failure reaches the caller.\<close>

theorem RequestStop_returns_nil:
  "snd (snd (RequestStop stopType startFirst startFinished stopFinished m)) = Inr None"
  by (simp add: RequestStop_def Let_def)

subsection \<open>Startup\<close>

text \<open>C1, at the running set \<open>{aws:cloudWatch}\<close> with \<open>aws:cloudWatch\<close> registered, a
  successful read and a successful registration with the scheduler: the comment in
  \<^verbatim>\<open>Execute\<close> announces a submission to the task pool under the plugin name as job
  identity, and the reconciliation does submit so, but \<^verbatim>\<open>Execute\<close> calls \<^verbatim>\<open>Start\<close> of the
  registered handler itself. Its calls are the two log lines, the read, that one direct
  \<^verbatim>\<open>Handler.Start\<close> and the registration with the scheduler; none of them is a
  \<^verbatim>\<open>Pool.Submit\<close>, so no start job with the identity \<open>aws:cloudWatch\<close> reaches the start pool.\<close>

theorem Execute_revival_bypasses_start_pool:
  "filter isSubmit (fst (snd (Execute
      (Some [(''aws:cloudWatch'', \<lparr>Name = ''aws:cloudWatch'', Configuration = ''{}'', State = ''''\<rparr>)], None)
      (Some (JobRef 0), None)
      \<lparr>startPlugin = PoolRef 0, stopPlugin = PoolRef 1, runningPlugins = Some [],
       registeredPlugins = RegisteredPlugins (Some (HandlerRef 0), None),
       managingLifeCycleJob = None\<rparr>))) = []
   \<and> fst (snd (Execute
      (Some [(''aws:cloudWatch'', \<lparr>Name = ''aws:cloudWatch'', Configuration = ''{}'', State = ''''\<rparr>)], None)
      (Some (JobRef 0), None)
      \<lparr>startPlugin = PoolRef 0, stopPlugin = PoolRef 1, runningPlugins = Some [],
       registeredPlugins = RegisteredPlugins (Some (HandlerRef 0), None),
       managingLifeCycleJob = None\<rparr>))
     = [Infof ''starting long running plugin manager'' [], DataStoreRead,
        Infof ''Detected %s as a previously executing long running plugin. Starting that plugin again''
          [''aws:cloudWatch''],
        HandlerStart (HandlerRef 0) '''' '''',
        SchedulerEveryMinutesRun 15]"
  by (simp add: Execute_def Let_def len_def rangeKeys_def index_def RegisteredPlugins_def
        PluginNameAwsCloudwatch_def PollFrequencyMinutes_def)

text \<open>C2, at the running set \<open>{unknown:plugin}\<close> with only \<open>aws:cloudWatch\<close> registered:
  \<^verbatim>\<open>Execute\<close> indexes the catalog without the comma-ok test, logs the empty name of the zero
  \<^verbatim>\<open>Plugin\<close> and panics on the method call through its \<^verbatim>\<open>nil\<close> handler; it does not
  return.\<close>

theorem Execute_unregistered_name_panics:
  "Execute
      (Some [(''unknown:plugin'', \<lparr>Name = ''unknown:plugin'', Configuration = '''', State = ''''\<rparr>)], None)
      (Some (JobRef 0), None)
      \<lparr>startPlugin = PoolRef 0, stopPlugin = PoolRef 1, runningPlugins = Some [],
       registeredPlugins = RegisteredPlugins (Some (HandlerRef 0), None),
       managingLifeCycleJob = None\<rparr>
   = (\<lparr>startPlugin = PoolRef 0, stopPlugin = PoolRef 1,
       runningPlugins = Some [(''unknown:plugin'', \<lparr>Name = ''unknown:plugin'', Configuration = '''', State = ''''\<rparr>)],
       registeredPlugins = RegisteredPlugins (Some (HandlerRef 0), None),
       managingLifeCycleJob = None\<rparr>,
      [Infof ''starting long running plugin manager'' [], DataStoreRead,
       Infof ''Detected %s as a previously executing long running plugin. Starting that plugin again'' ['''']],
      Inl NilDereference)"
  by (simp add: Execute_def Let_def len_def rangeKeys_def index_def RegisteredPlugins_def
        PluginNameAwsCloudwatch_def zeroPlugin_def zeroPluginInfo_def)




text \<open>C9: when \<^verbatim>\<open>dataStore.Read\<close> returns an error, \<^verbatim>\<open>Execute\<close> returns that error and leaves
  the manager with \<^verbatim>\<open>runningPlugins\<close> replaced by the map that came with the error (the
  \<^verbatim>\<open>nil\<close> map included); no other field changes.\<close>

theorem Execute_read_failure_overwrites_running_set:
  assumes "snd readResult = Some e"
  shows "fst (Execute readResult runResult m) = m\<lparr>runningPlugins := fst readResult\<rparr>
       \<and> runningPlugins (fst (Execute readResult runResult m)) = fst readResult
       \<and> snd (snd (Execute readResult runResult m)) = Inr (Some e)"
  using Execute_read_error[OF assms, of runResult m] by simp

theorem Execute_read_failure_overwrites_running_set_witness:
  "runningPlugins (fst (Execute (None, Some (Error ''read failed'')) (Some (JobRef 0), None)
      \<lparr>startPlugin = PoolRef 0, stopPlugin = PoolRef 1,
       runningPlugins = Some [(''aws:cloudWatch'', \<lparr>Name = ''aws:cloudWatch'', Configuration = ''{}'', State = ''''\<rparr>)],
       registeredPlugins = RegisteredPlugins (Some (HandlerRef 0), None),
       managingLifeCycleJob = None\<rparr>)) = None
   \<and> snd (snd (Execute (None, Some (Error ''read failed'')) (Some (JobRef 0), None)
      \<lparr>startPlugin = PoolRef 0, stopPlugin = PoolRef 1,
       runningPlugins = Some [(''aws:cloudWatch'', \<lparr>Name = ''aws:cloudWatch'', Configuration = ''{}'', State = ''''\<rparr>)],
       registeredPlugins = RegisteredPlugins (Some (HandlerRef 0), None),
       managingLifeCycleJob = None\<rparr>)) = Inr (Some (Error ''read failed''))"
proof -
  let ?rr = "(None :: PluginInfo gomap, Some (Error ''read failed''))"
  have h: "snd ?rr = Some (Error ''read failed'')" by simp
  from Execute_read_failure_overwrites_running_set[of ?rr "Error ''read failed''", OF h]
  show ?thesis by simp
qed

subsection \<open>Reconciliation\<close>

text \<open>C4: when every registered plugin has a handler, \<^verbatim>\<open>ensurePluginsAreRunning\<close> returns,
  and a call \<^verbatim>\<open>Submit\<close> with pool \<open>pl\<close>, job identity \<open>k\<close> and work \<open>jb\<close> is among its calls
  exactly when \<open>pl\<close> is the start pool, \<open>k\<close> is a name of the running set, \<open>k\<close> is registered,
  \<^verbatim>\<open>IsRunning\<close> of its handler answered false, and \<open>jb\<close> starts that handler with the
  registered configuration. The names of a map being distinct, no submission is made twice.
  With an empty (or \<^verbatim>\<open>nil\<close>) running set the only call is the log line.\<close>

theorem ensurePluginsAreRunning_submits_exactly:
  assumes "\<And>n p. registeredPlugins m n = Some p \<Longrightarrow> Handler p \<noteq> None"
  shows "snd (ensurePluginsAreRunning isRunning m) = Inr ()
       \<and> (\<forall>pl k jb. PoolSubmit pl k jb \<in> set (fst (ensurePluginsAreRunning isRunning m)) \<longleftrightarrow>
            pl = startPlugin m \<and> k \<in> set (rangeKeys (runningPlugins m)) \<and>
            (\<exists>p h. registeredPlugins m k = Some p \<and> Handler p = Some h \<and> \<not> isRunning h
                   \<and> jb = StartJob h (Configuration (Info p)) ''''))
       \<and> (distinct (rangeKeys (runningPlugins m)) \<longrightarrow>
            distinct (filter isSubmit (fst (ensurePluginsAreRunning isRunning m))))
       \<and> (len (runningPlugins m) = 0 \<longrightarrow>
            fst (ensurePluginsAreRunning isRunning m) =
              [Infof ''There are no long running plugins currently getting executed - skipping their healthcheck'' []])"
proof -
  have keys: "len (runningPlugins m) = 0 \<Longrightarrow> rangeKeys (runningPlugins m) = []"
    by (simp add: len_def rangeKeys_def split: option.splits)
  have a: "snd (ensurePluginsAreRunning isRunning m) = Inr ()"
    using ensureLoop_returns[of m isRunning, OF assms]
    by (simp add: ensurePluginsAreRunning_def)
  have b: "PoolSubmit pl k jb \<in> set (fst (ensurePluginsAreRunning isRunning m)) \<longleftrightarrow>
            pl = startPlugin m \<and> k \<in> set (rangeKeys (runningPlugins m)) \<and>
            (\<exists>p h. registeredPlugins m k = Some p \<and> Handler p = Some h \<and> \<not> isRunning h
                   \<and> jb = StartJob h (Configuration (Info p)) '''')" for pl k jb
  proof (cases "len (runningPlugins m) > 0")
    case True
    then show ?thesis
      using ensureLoop_submits[of m pl k jb isRunning, OF assms]
      by (simp add: ensurePluginsAreRunning_def)
  next
    case False
    then show ?thesis using keys by (simp add: ensurePluginsAreRunning_def)
  qed
  have c: "distinct (filter isSubmit (fst (ensurePluginsAreRunning isRunning m)))"
    if "distinct (rangeKeys (runningPlugins m))"
    using ensureLoop_distinct[of m _ isRunning, OF assms that]
    by (simp add: ensurePluginsAreRunning_def)
  have d: "fst (ensurePluginsAreRunning isRunning m) =
      [Infof ''There are no long running plugins currently getting executed - skipping their healthcheck'' []]"
    if "len (runningPlugins m) = 0"
    using that by (simp add: ensurePluginsAreRunning_def)
  from a b c d show ?thesis by blast
qed

theorem ensurePluginsAreRunning_submits_exactly_witness:
  "fst (ensurePluginsAreRunning (\<lambda>h. h = HandlerRef 1)
     \<lparr>startPlugin = PoolRef 0, stopPlugin = PoolRef 1,
      runningPlugins = Some [(''aws:cloudWatch'', \<lparr>Name = ''aws:cloudWatch'', Configuration = ''{}'', State = ''''\<rparr>),
                             (''unknown:plugin'', \<lparr>Name = ''unknown:plugin'', Configuration = '''', State = ''''\<rparr>)],
      registeredPlugins = RegisteredPlugins (Some (HandlerRef 0), None),
      managingLifeCycleJob = None\<rparr>)
   = [HandlerIsRunning (HandlerRef 0),
      Infof ''Starting %s since it wasn't running before'' [],
      PoolSubmit (PoolRef 0) ''aws:cloudWatch'' (StartJob (HandlerRef 0) '''' '''')]
   \<and> snd (ensurePluginsAreRunning (\<lambda>h. h = HandlerRef 1)
     \<lparr>startPlugin = PoolRef 0, stopPlugin = PoolRef 1,
      runningPlugins = Some [(''aws:cloudWatch'', \<lparr>Name = ''aws:cloudWatch'', Configuration = ''{}'', State = ''''\<rparr>),
                             (''unknown:plugin'', \<lparr>Name = ''unknown:plugin'', Configuration = '''', State = ''''\<rparr>)],
      registeredPlugins = RegisteredPlugins (Some (HandlerRef 0), None),
      managingLifeCycleJob = None\<rparr>) = Inr ()"
proof -
  let ?m = "\<lparr>startPlugin = PoolRef 0, stopPlugin = PoolRef 1,
      runningPlugins = Some [(''aws:cloudWatch'', \<lparr>Name = ''aws:cloudWatch'', Configuration = ''{}'', State = ''''\<rparr>),
                             (''unknown:plugin'', \<lparr>Name = ''unknown:plugin'', Configuration = '''', State = ''''\<rparr>)],
      registeredPlugins = RegisteredPlugins (Some (HandlerRef 0), None),
      managingLifeCycleJob = None\<rparr>"
  have reg: "\<And>n p. registeredPlugins ?m n = Some p \<Longrightarrow> Handler p \<noteq> None"
    by (auto simp add: RegisteredPlugins_def Let_def split: if_splits)
  have tr: "fst (ensurePluginsAreRunning (\<lambda>h. h = HandlerRef 1) ?m)
   = [HandlerIsRunning (HandlerRef 0),
      Infof ''Starting %s since it wasn't running before'' [],
      PoolSubmit (PoolRef 0) ''aws:cloudWatch'' (StartJob (HandlerRef 0) '''' '''')]"
    by (simp add: ensurePluginsAreRunning_def len_def rangeKeys_def RegisteredPlugins_def
          PluginNameAwsCloudwatch_def Let_def)
  from ensurePluginsAreRunning_submits_exactly[of ?m "\<lambda>h. h = HandlerRef 1", OF reg] tr
  show ?thesis by simp
qed

subsection \<open>Graceful shutdown, continued\<close>

text \<open>C6: the calls of \<^verbatim>\<open>RequestStop\<close> are, first, the send on the \<^verbatim>\<open>Quit\<close> channel of the
  reconciliation job (when there is a job), then two calls of \<^verbatim>\<open>ShutdownAndWait\<close>, one on the
  start pool and one on the stop pool, in either order, both with a timeout of 20 seconds
  for a soft stop and of 4 seconds for a hard stop (in nanoseconds); the function returns
  \<^verbatim>\<open>nil\<close> after them and leaves the manager as it was.\<close>

theorem RequestStop_deadline_and_order:
  "let d = (case stopType of StopTypeSoftStop \<Rightarrow> 20000000000 | StopTypeHardStop \<Rightarrow> 4000000000);
       (m', tr, r) = RequestStop stopType startFirst startFinished stopFinished m
   in \<exists>shutdowns.
        tr = (case managingLifeCycleJob m of None \<Rightarrow> [] | Some j \<Rightarrow> [QuitSend j]) @ shutdowns
        \<and> length shutdowns = 2
        \<and> set shutdowns = {PoolShutdownAndWait (startPlugin m) d startFinished,
                            PoolShutdownAndWait (stopPlugin m) d stopFinished}
        \<and> r = Inr None \<and> m' = m"
  by (cases stopType)
     (auto simp add: RequestStop_def Let_def stopLifeCycleManagementJob_def SoftStopTimeout_def
        HardStopTimeout_def Second_def)

text \<open>C10: with no reconciliation job (\<^verbatim>\<open>managingLifeCycleJob\<close> is \<^verbatim>\<open>nil\<close>, as it is after
  \<^verbatim>\<open>EnsureInitialization\<close> and after a failed registration), \<^verbatim>\<open>stopLifeCycleManagementJob\<close>
  makes no call, \<^verbatim>\<open>RequestStop\<close> sends nothing on a \<^verbatim>\<open>Quit\<close> channel, still calls
  \<^verbatim>\<open>ShutdownAndWait\<close> on both pools with the timeout of the stop type, and returns \<^verbatim>\<open>nil\<close>.\<close>

theorem RequestStop_without_job:
  assumes "managingLifeCycleJob m = None"
  shows "stopLifeCycleManagementJob m = []
       \<and> (\<forall>j. QuitSend j \<notin> set (fst (snd (RequestStop stopType startFirst startFinished stopFinished m))))
       \<and> (let d = (case stopType of StopTypeSoftStop \<Rightarrow> 20000000000
                                      | StopTypeHardStop \<Rightarrow> 4000000000)
          in PoolShutdownAndWait (startPlugin m) d startFinished
               \<in> set (fst (snd (RequestStop stopType startFirst startFinished stopFinished m)))
           \<and> PoolShutdownAndWait (stopPlugin m) d stopFinished
               \<in> set (fst (snd (RequestStop stopType startFirst startFinished stopFinished m))))
       \<and> snd (snd (RequestStop stopType startFirst startFinished stopFinished m)) = Inr None"
  using assms
  by (cases stopType)
     (auto simp add: RequestStop_def Let_def stopLifeCycleManagementJob_def SoftStopTimeout_def
        HardStopTimeout_def Second_def)

theorem RequestStop_without_job_witness:
  "singletonInstance (EnsureInitialization (Some (HandlerRef 0), None) (PoolRef 0) (PoolRef 1) initialProcess)
     = Some \<lparr>startPlugin = PoolRef 0, stopPlugin = PoolRef 1, runningPlugins = Some [],
             registeredPlugins = RegisteredPlugins (Some (HandlerRef 0), None),
             managingLifeCycleJob = None\<rparr>
   \<and> fst (snd (RequestStop StopTypeHardStop True False False
        \<lparr>startPlugin = PoolRef 0, stopPlugin = PoolRef 1, runningPlugins = Some [],
         registeredPlugins = RegisteredPlugins (Some (HandlerRef 0), None),
         managingLifeCycleJob = None\<rparr>))
     = [PoolShutdownAndWait (PoolRef 0) 4000000000 False, PoolShutdownAndWait (PoolRef 1) 4000000000 False]
   \<and> snd (snd (RequestStop StopTypeHardStop True False False
        \<lparr>startPlugin = PoolRef 0, stopPlugin = PoolRef 1, runningPlugins = Some [],
         registeredPlugins = RegisteredPlugins (Some (HandlerRef 0), None),
         managingLifeCycleJob = None\<rparr>)) = Inr None"
proof -
  let ?m = "\<lparr>startPlugin = PoolRef 0, stopPlugin = PoolRef 1, runningPlugins = Some [],
         registeredPlugins = RegisteredPlugins (Some (HandlerRef 0), None),
         managingLifeCycleJob = None\<rparr>"
  have h: "managingLifeCycleJob ?m = None" by simp
  have i: "singletonInstance (EnsureInitialization (Some (HandlerRef 0), None) (PoolRef 0) (PoolRef 1) initialProcess)
     = Some ?m"
    by (simp add: EnsureInitialization_def initialProcess_def Let_def)
  have t: "fst (snd (RequestStop StopTypeHardStop True False False ?m))
     = [PoolShutdownAndWait (PoolRef 0) 4000000000 False, PoolShutdownAndWait (PoolRef 1) 4000000000 False]"
    by (simp add: RequestStop_def Let_def stopLifeCycleManagementJob_def HardStopTimeout_def Second_def)
  from RequestStop_without_job[of ?m StopTypeHardStop True False False, OF h] i t
  show ?thesis by simp
qed

subsection \<open>Plugin catalog\<close>

text \<open>C7: a call of \<^verbatim>\<open>RegisteredWorkerPlugins\<close> or of \<^verbatim>\<open>RegisteredLongRunningPlugins\<close> on a
  catalog that is not loaded runs \<^verbatim>\<open>loadWorkerPlugins\<close> and \<^verbatim>\<open>loadLongRunningPlugins\<close> once each
  (three constructor calls), stores both registries and returns the one asked for. A call of
  either on a catalog that holds both registries makes no call at all, leaves the catalog as
  it is and returns the cached registry, whatever the constructors would answer now. (Calls
  follow one another here; two first calls racing each other are outside the model.)\<close>

theorem catalog_loaded_once:
  "(\<not> isLoaded c \<longrightarrow>
      (let w = loadWorkerPlugins env; l = loadLongRunningPlugins env;
           c' = c\<lparr>registeredExecuters := Some (fst w), registeredLongRunningPlugins := Some (fst l)\<rparr>
       in RegisteredWorkerPlugins env c = (c', snd w @ snd l, Inr (fst w))
        \<and> RegisteredLongRunningPlugins env c = (c', snd w @ snd l, Inr (fst l))
        \<and> isLoaded c'
        \<and> filter isNewPlugin (snd w @ snd l)
            = [NewPlugin ''runcommand'', NewPlugin ''updatessmagent'', NewPlugin ''lrpminvoker'']))
   \<and> (\<forall>w l. registeredExecuters c = Some w \<and> registeredLongRunningPlugins c = Some l \<longrightarrow>
        RegisteredWorkerPlugins env c = (c, [], Inr w)
      \<and> RegisteredLongRunningPlugins env c = (c, [], Inr l))"
  by (auto simp add: RegisteredWorkerPlugins_def RegisteredLongRunningPlugins_def loadAndCache_def
        isLoaded_def cache_def getCachedWorkerPlugins_def getCachedLongRunningPlugins_def Let_def
        case_prod_beta loadWorkerPlugins_def loadLongRunningPlugins_def
        loadPlatformIndependentPlugins_def split: option.splits)

theorem catalog_loaded_once_witness:
  "(let env1 = \<lparr>lrpminvokerNewPlugin = (ExecuterRef 0, None),
                 runcommandName = ''aws:runShellScript'',
                 runcommandNewPlugin = (ExecuterRef 1, None),
                 updatessmagentName = ''aws:updateSsmAgent'',
                 updatessmagentNewPlugin = (ExecuterRef 2, None),
                 platformDependentPlugins = Map.empty\<rparr>;
        env2 = env1\<lparr>lrpminvokerNewPlugin := (ExecuterRef 3, Some (Error ''second load''))\<rparr>;
        first = RegisteredWorkerPlugins env1 initialCatalog;
        second = RegisteredLongRunningPlugins env2 (fst first);
        third = RegisteredWorkerPlugins env2 (fst second)
    in filter isNewPlugin (fst (snd first))
         = [NewPlugin ''runcommand'', NewPlugin ''updatessmagent'', NewPlugin ''lrpminvoker'']
     \<and> fst (snd second) = [] \<and> fst second = fst first
     \<and> snd (snd second) = Inr (Map.empty(''aws:cloudWatch'' \<mapsto> ExecuterRef 0))
     \<and> fst (snd third) = [] \<and> fst third = fst first
     \<and> snd (snd third) = snd (snd first))"
proof -
  let ?env1 = "\<lparr>lrpminvokerNewPlugin = (ExecuterRef 0, None),
                 runcommandName = ''aws:runShellScript'',
                 runcommandNewPlugin = (ExecuterRef 1, None),
                 updatessmagentName = ''aws:updateSsmAgent'',
                 updatessmagentNewPlugin = (ExecuterRef 2, None),
                 platformDependentPlugins = Map.empty\<rparr>"
  let ?env2 = "?env1\<lparr>lrpminvokerNewPlugin := (ExecuterRef 3, Some (Error ''second load''))\<rparr>"
  let ?w = "loadWorkerPlugins ?env1"
  let ?l = "loadLongRunningPlugins ?env1"
  let ?c = "initialCatalog\<lparr>registeredExecuters := Some (fst ?w),
                            registeredLongRunningPlugins := Some (fst ?l)\<rparr>"
  have fresh: "\<not> isLoaded initialCatalog"
    by (simp add: isLoaded_def initialCatalog_def)
  have l: "fst ?l = Map.empty(''aws:cloudWatch'' \<mapsto> ExecuterRef 0)"
    by (simp add: loadLongRunningPlugins_def)
  from catalog_loaded_once[of initialCatalog ?env1] fresh
  have first: "RegisteredWorkerPlugins ?env1 initialCatalog = (?c, snd ?w @ snd ?l, Inr (fst ?w))"
    and calls: "filter isNewPlugin (snd ?w @ snd ?l)
            = [NewPlugin ''runcommand'', NewPlugin ''updatessmagent'', NewPlugin ''lrpminvoker'']"
    by (simp_all add: Let_def)
  have cached: "registeredExecuters ?c = Some (fst ?w) \<and> registeredLongRunningPlugins ?c = Some (fst ?l)"
    by simp
  from catalog_loaded_once[of ?c ?env2] cached
  have later: "RegisteredWorkerPlugins ?env2 ?c = (?c, [], Inr (fst ?w))"
              "RegisteredLongRunningPlugins ?env2 ?c = (?c, [], Inr (fst ?l))"
    by blast+
  show ?thesis
    unfolding Let_def first fst_conv snd_conv later
    using calls l by simp
qed

text \<open>C8: a constructor that returns an error leaves its plugin out and nothing else.
  \<^verbatim>\<open>RegisteredPlugins\<close> is empty when \<^verbatim>\<open>cloudwatch.NewPlugin\<close> fails and holds exactly
  \<open>aws:cloudWatch\<close> otherwise; likewise \<^verbatim>\<open>loadLongRunningPlugins\<close> with \<^verbatim>\<open>lrpminvoker.NewPlugin\<close>.
  In \<^verbatim>\<open>loadPlatformIndependentPlugins\<close> (the two plugin names being different) each of the two
  names is present exactly when its own constructor succeeded, and no other name is present.
  The worker registry does not depend on what \<^verbatim>\<open>lrpminvoker.NewPlugin\<close> returned, nor the
  long-running registry on the two worker constructors. Every load function returns a
  registry: its result has no error and no panic.\<close>

theorem failed_constructor_omits_only_its_plugin:
  "(snd cloudwatchNewPlugin \<noteq> None \<longrightarrow> RegisteredPlugins cloudwatchNewPlugin = Map.empty)
   \<and> (snd cloudwatchNewPlugin = None \<longrightarrow> dom (RegisteredPlugins cloudwatchNewPlugin) = {''aws:cloudWatch''})
   \<and> (snd (lrpminvokerNewPlugin env) \<noteq> None \<longrightarrow> fst (loadLongRunningPlugins env) = Map.empty)
   \<and> (snd (lrpminvokerNewPlugin env) = None \<longrightarrow>
        fst (loadLongRunningPlugins env) = Map.empty(''aws:cloudWatch'' \<mapsto> fst (lrpminvokerNewPlugin env)))
   \<and> (runcommandName env \<noteq> updatessmagentName env \<longrightarrow>
        fst (loadPlatformIndependentPlugins env) (runcommandName env)
          = (if snd (runcommandNewPlugin env) = None then Some (fst (runcommandNewPlugin env)) else None)
      \<and> fst (loadPlatformIndependentPlugins env) (updatessmagentName env)
          = (if snd (updatessmagentNewPlugin env) = None then Some (fst (updatessmagentNewPlugin env)) else None))
   \<and> dom (fst (loadPlatformIndependentPlugins env)) \<subseteq> {runcommandName env, updatessmagentName env}
   \<and> loadWorkerPlugins (env\<lparr>lrpminvokerNewPlugin := x\<rparr>) = loadWorkerPlugins env
   \<and> loadLongRunningPlugins (env\<lparr>runcommandNewPlugin := y, updatessmagentNewPlugin := z\<rparr>)
       = loadLongRunningPlugins env"
proof -
  have a: "snd cloudwatchNewPlugin \<noteq> None \<longrightarrow> RegisteredPlugins cloudwatchNewPlugin = Map.empty"
    by (auto simp add: RegisteredPlugins_def Let_def)
  have b: "snd cloudwatchNewPlugin = None \<longrightarrow> dom (RegisteredPlugins cloudwatchNewPlugin) = {''aws:cloudWatch''}"
    by (simp add: RegisteredPlugins_def Let_def PluginNameAwsCloudwatch_def)
  have c: "snd (lrpminvokerNewPlugin env) \<noteq> None \<longrightarrow> fst (loadLongRunningPlugins env) = Map.empty"
    by (auto simp add: loadLongRunningPlugins_def case_prod_beta)
  have d: "snd (lrpminvokerNewPlugin env) = None \<longrightarrow>
        fst (loadLongRunningPlugins env) = Map.empty(''aws:cloudWatch'' \<mapsto> fst (lrpminvokerNewPlugin env))"
    by (simp add: loadLongRunningPlugins_def case_prod_beta)
  have e: "runcommandName env \<noteq> updatessmagentName env \<longrightarrow>
        fst (loadPlatformIndependentPlugins env) (runcommandName env)
          = (if snd (runcommandNewPlugin env) = None then Some (fst (runcommandNewPlugin env)) else None)
      \<and> fst (loadPlatformIndependentPlugins env) (updatessmagentName env)
          = (if snd (updatessmagentNewPlugin env) = None then Some (fst (updatessmagentNewPlugin env)) else None)"
    by (auto simp add: loadPlatformIndependentPlugins_def Let_def case_prod_beta split: option.splits)
  have f: "dom (fst (loadPlatformIndependentPlugins env)) \<subseteq> {runcommandName env, updatessmagentName env}"
    by (auto simp add: loadPlatformIndependentPlugins_def Let_def case_prod_beta split: option.splits if_splits)
  have g: "loadWorkerPlugins (env\<lparr>lrpminvokerNewPlugin := x\<rparr>) = loadWorkerPlugins env"
    by (simp add: loadWorkerPlugins_def loadPlatformIndependentPlugins_def)
  have h: "loadLongRunningPlugins (env\<lparr>runcommandNewPlugin := y, updatessmagentNewPlugin := z\<rparr>)
       = loadLongRunningPlugins env"
    by (simp add: loadLongRunningPlugins_def)
  from a b c d e f g h show ?thesis by blast
qed

theorem failed_constructor_omits_only_its_plugin_witness:
  "fst (loadPlatformIndependentPlugins
      \<lparr>lrpminvokerNewPlugin = (ExecuterRef 0, Some (Error ''no lrpminvoker'')),
       runcommandName = ''aws:runShellScript'',
       runcommandNewPlugin = (ExecuterRef 1, Some (Error ''no runcommand'')),
       updatessmagentName = ''aws:updateSsmAgent'',
       updatessmagentNewPlugin = (ExecuterRef 2, None),
       platformDependentPlugins = Map.empty\<rparr>) ''aws:runShellScript'' = None
   \<and> fst (loadPlatformIndependentPlugins
      \<lparr>lrpminvokerNewPlugin = (ExecuterRef 0, Some (Error ''no lrpminvoker'')),
       runcommandName = ''aws:runShellScript'',
       runcommandNewPlugin = (ExecuterRef 1, Some (Error ''no runcommand'')),
       updatessmagentName = ''aws:updateSsmAgent'',
       updatessmagentNewPlugin = (ExecuterRef 2, None),
       platformDependentPlugins = Map.empty\<rparr>) ''aws:updateSsmAgent'' = Some (ExecuterRef 2)
   \<and> fst (loadLongRunningPlugins
      \<lparr>lrpminvokerNewPlugin = (ExecuterRef 0, Some (Error ''no lrpminvoker'')),
       runcommandName = ''aws:runShellScript'',
       runcommandNewPlugin = (ExecuterRef 1, Some (Error ''no runcommand'')),
       updatessmagentName = ''aws:updateSsmAgent'',
       updatessmagentNewPlugin = (ExecuterRef 2, None),
       platformDependentPlugins = Map.empty\<rparr>) = Map.empty
   \<and> RegisteredPlugins (None, Some (Error ''no cloudwatch'')) = Map.empty"
  using failed_constructor_omits_only_its_plugin[of "(None, Some (Error ''no cloudwatch''))"
      "\<lparr>lrpminvokerNewPlugin = (ExecuterRef 0, Some (Error ''no lrpminvoker'')),
       runcommandName = ''aws:runShellScript'',
       runcommandNewPlugin = (ExecuterRef 1, Some (Error ''no runcommand'')),
       updatessmagentName = ''aws:updateSsmAgent'',
       updatessmagentNewPlugin = (ExecuterRef 2, None),
       platformDependentPlugins = Map.empty\<rparr>"]
  by simp

end
